theory Spec2Isabelle
  imports Complex_Main
begin

section \<open>Plant Margin Simulator: metrics engine and comparison table\<close>

text \<open>
  A shallow embedding of \<^verbatim>\<open>app_simple.py\<close>: the helpers, the function
  \<^verbatim>\<open>compute_metrics\<close>, and the module-level loop that fills \<^verbatim>\<open>rows\<close>.

  Numbers. Python's \<^verbatim>\<open>float\<close> is modelled by \<^typ>\<open>real\<close>: every arithmetic
  operation is exact, so rounding to IEEE-754 doubles, infinities and NaN are outside the
  model. The one operation of the source that can raise, true division, is modelled as
  a fallible function, so that each guard of the source is what keeps the result an
  \<open>Inr\<close>.
\<close>

subsection \<open>Errors\<close>

datatype py_error = ZeroDivisionError | KeyError

definition truediv :: "real \<Rightarrow> real \<Rightarrow> py_error + real" where
  \<comment> \<open>\<^verbatim>\<open>a / b\<close> on floats\<close>
  "truediv a b = (if b = 0 then Inl ZeroDivisionError else Inr (a / b))"

definition bind_result :: "py_error + 'a \<Rightarrow> ('a \<Rightarrow> py_error + 'b) \<Rightarrow> py_error + 'b" where
  \<comment> \<open>evaluation order: an exception in the first computation skips the rest\<close>
  "bind_result r f = (case r of Inl e \<Rightarrow> Inl e | Inr x \<Rightarrow> f x)"

subsection \<open>Parameters and the fixed baseline\<close>

record ScenarioParameters =
  price_per_ton :: real
  run_rate_tph :: real
  planned_hours_per_month :: real
  downtime_hours :: real
  yield_pct :: real
  energy_cost_per_ton :: real
  labor_cost_per_ton :: real
  scrap_pct :: real
  other_variable_cost_per_ton :: real
  fixed_cost_per_month :: real

definition BASELINE :: ScenarioParameters where
  "BASELINE = \<lparr>
     price_per_ton = 500,
     run_rate_tph = 120,
     planned_hours_per_month = 600,
     downtime_hours = 40,
     yield_pct = 95,
     energy_cost_per_ton = 35,
     labor_cost_per_ton = 25,
     scrap_pct = 1,
     other_variable_cost_per_ton = 60,
     fixed_cost_per_month = 2000000 \<rparr>"

subsection \<open>Helpers\<close>

definition clamp :: "real \<Rightarrow> real \<Rightarrow> real \<Rightarrow> real" where
  \<comment> \<open>\<^verbatim>\<open>clamp(x, lo, hi)\<close>\<close>
  "clamp x lo hi = max lo (min hi x)"

definition tol :: real where
  \<comment> \<open>the default \<^verbatim>\<open>tol=1e-9\<close> of \<^verbatim>\<open>arrow\<close> and \<^verbatim>\<open>delta_class\<close>\<close>
  "tol = 1 / 10 ^ 9"

text \<open>
  The three glyphs are outside ASCII; a string here is a list of bytes, so each glyph is
  its UTF-8 encoding (U+25B2, U+25BC, U+25CF).
\<close>

definition glyph_up :: string where
  "glyph_up = [CHR 0xE2, CHR 0x96, CHR 0xB2]"

definition glyph_down :: string where
  "glyph_down = [CHR 0xE2, CHR 0x96, CHR 0xBC]"

definition glyph_dot :: string where
  "glyph_dot = [CHR 0xE2, CHR 0x97, CHR 0x8F]"

definition arrow :: "real \<Rightarrow> string" where
  "arrow delta =
     (if delta > tol then glyph_up
      else if delta < - tol then glyph_down
      else glyph_dot)"

definition delta_class :: "real \<Rightarrow> string" where
  "delta_class delta =
     (if delta > tol then ''pos''
      else if delta < - tol then ''neg''
      else ''neu'')"

definition value_class :: "real \<Rightarrow> string" where
  "value_class val = (if val > 0 then ''neutral'' else ''neg'')"

subsection \<open>Core financial engine\<close>

text \<open>
  The dictionary returned by \<^verbatim>\<open>compute_metrics\<close> always has the same twelve keys;
  it is a record whose fields are those keys, in the order of the dictionary literal.
\<close>

record MetricsResult =
  Operating_hours :: real
  Tons_processed :: real
  Net_saleable_tons :: real
  Revenue :: real
  Variable_cost :: real
  Contribution :: real
  Contribution_pct :: real
  Fixed_cost :: real
  EBITDA :: real
  EBITDA_pct :: real
  Var_cost_per_processed_ton :: real
  Contribution_per_processed_ton :: real

definition compute_metrics :: "ScenarioParameters \<Rightarrow> py_error + MetricsResult" where
  "compute_metrics p =
     (let downtime = max 0 (min (downtime_hours p) (planned_hours_per_month p));
          operating_hours = planned_hours_per_month p - downtime;
          tons_processed = run_rate_tph p * operating_hours
      in
      bind_result (truediv (yield_pct p) 100) (\<lambda>yield_ratio.
      bind_result (truediv (scrap_pct p) 100) (\<lambda>scrap_ratio.
      let yield_frac = clamp yield_ratio (50 / 100) 1;
          scrap_frac = clamp scrap_ratio 0 (20 / 100);
          saleable_tons = tons_processed * yield_frac;
          net_saleable_tons = saleable_tons * (1 - scrap_frac);
          revenue = net_saleable_tons * price_per_ton p;
          variable_cost = tons_processed *
            (energy_cost_per_ton p + labor_cost_per_ton p + other_variable_cost_per_ton p);
          contribution = revenue - variable_cost;
          ebitda = contribution - fixed_cost_per_month p
      in
      bind_result (if revenue \<noteq> 0
                   then bind_result (truediv contribution revenue) (\<lambda>q. Inr (q * 100))
                   else Inr 0) (\<lambda>contribution_pct.
      bind_result (if revenue \<noteq> 0
                   then bind_result (truediv ebitda revenue) (\<lambda>q. Inr (q * 100))
                   else Inr 0) (\<lambda>ebitda_pct.
      bind_result (if tons_processed \<noteq> 0
                   then truediv variable_cost tons_processed
                   else Inr 0) (\<lambda>var_cost_per_ton.
      bind_result (if tons_processed \<noteq> 0
                   then truediv contribution tons_processed
                   else Inr 0) (\<lambda>contribution_per_ton.
      Inr \<lparr> Operating_hours = operating_hours,
            Tons_processed = tons_processed,
            Net_saleable_tons = net_saleable_tons,
            Revenue = revenue,
            Variable_cost = variable_cost,
            Contribution = contribution,
            Contribution_pct = contribution_pct,
            Fixed_cost = fixed_cost_per_month p,
            EBITDA = ebitda,
            EBITDA_pct = ebitda_pct,
            Var_cost_per_processed_ton = var_cost_per_ton,
            Contribution_per_processed_ton = contribution_per_ton \<rparr>)))))))"

subsection \<open>String helpers\<close>

text \<open>
  Python's built-in number formatting (\<^verbatim>\<open>format(x, spec)\<close>, used through f-strings) is
  not part of the program; it is a parameter of every function that formats a number.
\<close>

type_synonym formatter = "real \<Rightarrow> string \<Rightarrow> string"

definition money0 :: "formatter \<Rightarrow> real \<Rightarrow> string" where
  "money0 fmt x = ''$'' @ fmt x '',.0f''"

definition money2 :: "formatter \<Rightarrow> real \<Rightarrow> string" where
  "money2 fmt x = ''$'' @ fmt x '',.2f''"

definition colorize :: "string \<Rightarrow> real \<Rightarrow> string" where
  "colorize text delta =
     ''<span class='' @ [CHR 0x27] @ delta_class delta @ [CHR 0x27] @ ''>'' @ text @ ''</span>''"

subsection \<open>Grouped table\<close>

text \<open>
  The formula texts contain the signs U+00D7, U+2212 and U+00F7, written here as their
  UTF-8 bytes.
\<close>

definition sign_times :: string where
  "sign_times = [CHR 0xC3, CHR 0x97]"

definition sign_minus :: string where
  "sign_minus = [CHR 0xE2, CHR 0x88, CHR 0x92]"

definition sign_div :: string where
  "sign_div = [CHR 0xC3, CHR 0xB7]"

definition FORMULAS :: "(string \<times> string) list" where
  "FORMULAS = [
     (''Revenue'', ''Unit Price '' @ sign_times @ '' Net Saleable Tons''),
     (''Variable cost'', ''Processed Tons '' @ sign_times @ '' (Energy + Labor + Other)''),
     (''Contribution'', ''Revenue '' @ sign_minus @ '' Variable Cost''),
     (''Contribution %'', ''Contribution '' @ sign_div @ '' Revenue''),
     (''EBITDA'', ''Contribution '' @ sign_minus @ '' Fixed Cost''),
     (''EBITDA %'', ''EBITDA '' @ sign_div @ '' Revenue''),
     (''Var cost / processed ton'', ''Variable Cost '' @ sign_div @ '' Processed Tons''),
     (''Contribution / processed ton'', ''Contribution '' @ sign_div @ '' Processed Tons'')]"

definition GROUPS :: "(string \<times> string list) list" where
  "GROUPS = [
     (''Production & Time'',
        [''Operating hours'', ''Tons processed'', ''Net saleable tons'']),
     (''Costs'',
        [''Variable cost'', ''Fixed cost'']),
     (''Financial Results'',
        [''Revenue'', ''Contribution'', ''Contribution %'', ''EBITDA'', ''EBITDA %'']),
     (''Unit Economics'',
        [''Var cost / processed ton'', ''Contribution / processed ton''])]"

definition getitem :: "MetricsResult \<Rightarrow> string \<Rightarrow> py_error + real" where
  \<comment> \<open>\<^verbatim>\<open>metrics[m]\<close>: the field stored under the key, \<^verbatim>\<open>KeyError\<close> for any other string\<close>
  "getitem r m =
     (if m = ''Operating hours'' then Inr (Operating_hours r)
      else if m = ''Tons processed'' then Inr (Tons_processed r)
      else if m = ''Net saleable tons'' then Inr (Net_saleable_tons r)
      else if m = ''Revenue'' then Inr (Revenue r)
      else if m = ''Variable cost'' then Inr (Variable_cost r)
      else if m = ''Contribution'' then Inr (Contribution r)
      else if m = ''Contribution %'' then Inr (Contribution_pct r)
      else if m = ''Fixed cost'' then Inr (Fixed_cost r)
      else if m = ''EBITDA'' then Inr (EBITDA r)
      else if m = ''EBITDA %'' then Inr (EBITDA_pct r)
      else if m = ''Var cost / processed ton'' then Inr (Var_cost_per_processed_ton r)
      else if m = ''Contribution / processed ton'' then Inr (Contribution_per_processed_ton r)
      else Inl KeyError)"

record Row =
  Metric :: string
  Baseline :: string
  Current :: string
  Delta :: string

definition header_row :: "string \<Rightarrow> Row" where
  "header_row group_name =
     \<lparr> Metric = ''<b>'' @ group_name @ ''</b>'', Baseline = [], Current = [], Delta = [] \<rparr>"

definition format_strs :: "formatter \<Rightarrow> string \<Rightarrow> real \<Rightarrow> real \<Rightarrow> real \<Rightarrow> string \<times> string \<times> string" where
  \<comment> \<open>the \<^verbatim>\<open>if/elif/else\<close> chain giving \<^verbatim>\<open>(base_str, curr_str, delta_str)\<close>;
      both inner loops contain the same chain\<close>
  "format_strs fmt m b c d =
     (if m \<in> set [''Contribution %'', ''EBITDA %'']
      then (fmt b ''.2f'' @ ''%'', fmt c ''.2f'' @ ''%'', fmt d ''.2f'' @ '' pts'')
      else if m \<in> set [''Var cost / processed ton'', ''Contribution / processed ton'']
      then (money2 fmt b, money2 fmt c, money2 fmt d)
      else if m \<in> set [''Operating hours'', ''Tons processed'', ''Net saleable tons'']
      then (fmt b '',.0f'', fmt c '',.0f'', fmt d '',.0f'')
      else (money0 fmt b, money0 fmt c, money0 fmt d))"

definition formula_note :: "string \<Rightarrow> string \<Rightarrow> string" where
  \<comment> \<open>the markup appended to \<^verbatim>\<open>base_str\<close> for a metric \<open>m\<close> with formula text \<open>f\<close>\<close>
  "formula_note m f =
     ''<div style='font-size:12px; color:#9ca3af; margin-top:4px;'>''
       @ ''('' @ m @ '' = '' @ f @ '')'' @ ''</div>''"

text \<open>
  The first inner loop (source lines 293 to 331): one row per metric of the group, the
  baseline cell extended by the formula when the metric is a key of \<^verbatim>\<open>FORMULAS\<close>.
  The list \<open>rows\<close> is the state; \<^verbatim>\<open>rows.append\<close> adds at its end.
\<close>

fun formula_loop ::
  "formatter \<Rightarrow> MetricsResult \<Rightarrow> MetricsResult \<Rightarrow> string list \<Rightarrow> Row list \<Rightarrow> py_error + Row list"
where
  "formula_loop fmt baseline current [] rows = Inr rows"
| "formula_loop fmt baseline current (m # metrics) rows =
     bind_result (getitem baseline m) (\<lambda>b.
     bind_result (getitem current m) (\<lambda>c.
     let d = c - b;
         (base_str, curr_str, delta_str) = format_strs fmt m b c d;
         baseline_display =
           (case map_of FORMULAS m of
              Some f \<Rightarrow> base_str @ formula_note m f
            | None \<Rightarrow> base_str)
     in formula_loop fmt baseline current metrics
          (rows @ [\<lparr> Metric = m,
                      Baseline = baseline_display,
                      Current = colorize (curr_str @ '' '' @ arrow d) d,
                      Delta = colorize delta_str d \<rparr>])))"

text \<open>
  The second inner loop (source lines 334 to 361), at the same depth as the first and so
  run for every group right after it: one more row per metric of the group, the baseline
  cell being \<^verbatim>\<open>base_str\<close> alone.
\<close>

fun plain_loop ::
  "formatter \<Rightarrow> MetricsResult \<Rightarrow> MetricsResult \<Rightarrow> string list \<Rightarrow> Row list \<Rightarrow> py_error + Row list"
where
  "plain_loop fmt baseline current [] rows = Inr rows"
| "plain_loop fmt baseline current (m # metrics) rows =
     bind_result (getitem baseline m) (\<lambda>b.
     bind_result (getitem current m) (\<lambda>c.
     let d = c - b;
         (base_str, curr_str, delta_str) = format_strs fmt m b c d
     in plain_loop fmt baseline current metrics
          (rows @ [\<lparr> Metric = m,
                      Baseline = base_str,
                      Current = colorize (curr_str @ '' '' @ arrow d) d,
                      Delta = colorize delta_str d \<rparr>])))"

text \<open>The outer loop over \<^verbatim>\<open>GROUPS.items()\<close>, in insertion order.\<close>

fun group_loop ::
  "formatter \<Rightarrow> MetricsResult \<Rightarrow> MetricsResult \<Rightarrow> (string \<times> string list) list \<Rightarrow> Row list
     \<Rightarrow> py_error + Row list"
where
  "group_loop fmt baseline current [] rows = Inr rows"
| "group_loop fmt baseline current ((group_name, metrics) # groups) rows =
     bind_result (formula_loop fmt baseline current metrics (rows @ [header_row group_name])) (\<lambda>rows1.
     bind_result (plain_loop fmt baseline current metrics rows1) (\<lambda>rows2.
     group_loop fmt baseline current groups rows2))"

definition rows :: "formatter \<Rightarrow> MetricsResult \<Rightarrow> MetricsResult \<Rightarrow> py_error + Row list" where
  \<comment> \<open>\<^verbatim>\<open>rows = []\<close> followed by the loop\<close>
  "rows fmt baseline current = group_loop fmt baseline current GROUPS []"

section \<open>Properties\<close>

subsection \<open>Shared facts about the engine\<close>

lemmas engine_defs = compute_metrics_def truediv_def bind_result_def clamp_def Let_def

lemma compute_metrics_returns: "\<exists>m. compute_metrics p = Inr m"
  by (simp add: compute_metrics_def truediv_def bind_result_def Let_def)

lemma compute_metrics_tons:
  "compute_metrics p = Inr m \<Longrightarrow>
     Tons_processed m = run_rate_tph p *
       (planned_hours_per_month p - max 0 (min (downtime_hours p) (planned_hours_per_month p)))"
  by (auto simp: compute_metrics_def truediv_def bind_result_def Let_def split: if_splits)

lemma compute_metrics_net:
  "compute_metrics p = Inr m \<Longrightarrow>
     Net_saleable_tons m = Tons_processed m * clamp (yield_pct p / 100) (50 / 100) 1 *
       (1 - clamp (scrap_pct p / 100) 0 (20 / 100))"
  by (auto simp: compute_metrics_def truediv_def bind_result_def Let_def split: if_splits)

lemma baseline_result:
  "compute_metrics BASELINE =
     Inr \<lparr> Operating_hours = 560,
           Tons_processed = 67200,
           Net_saleable_tons = 63201.6,
           Revenue = 31600800,
           Variable_cost = 8064000,
           Contribution = 23536800,
           Contribution_pct = 23536800 / 31600800 * 100,
           Fixed_cost = 2000000,
           EBITDA = 21536800,
           EBITDA_pct = 21536800 / 31600800 * 100,
           Var_cost_per_processed_ton = 120,
           Contribution_per_processed_ton = 23536800 / 67200 \<rparr>"
  by (simp add: engine_defs BASELINE_def)

lemmas table_defs =
  rows_def GROUPS_def FORMULAS_def getitem_def header_row_def format_strs_def
  bind_result_def Let_def

subsection \<open>The reference scenario\<close>

text \<open>
  C2, as stated: on \<open>BASELINE\<close> the engine returns operating hours 560, tons processed
  67,200, net saleable tons 63,223.2, revenue 31,611,600, variable cost 8,064,000,
  contribution 23,547,600 and EBITDA 21,547,600. The engine does return a result, but
  four of the seven figures differ: \<open>67200 * 0.95 * 0.99\<close> is 63,201.6, and revenue,
  contribution and EBITDA follow from it.
\<close>

theorem baseline_reference_counterexample:
  "\<not> isl (compute_metrics BASELINE) \<and>
   Net_saleable_tons (projr (compute_metrics BASELINE)) \<noteq> 63223.2 \<and>
   Revenue (projr (compute_metrics BASELINE)) \<noteq> 31611600 \<and>
   Contribution (projr (compute_metrics BASELINE)) \<noteq> 23547600 \<and>
   EBITDA (projr (compute_metrics BASELINE)) \<noteq> 21547600"
  by (simp add: baseline_result)

text \<open>
  C2, amended: on \<open>BASELINE\<close> the engine returns operating hours 560, tons processed
  67,200, net saleable tons 63,201.6, revenue 31,600,800, variable cost 8,064,000,
  contribution 23,536,800 and EBITDA 21,536,800 (in exact arithmetic).
\<close>

theorem baseline_reference_values:
  "\<exists>m. compute_metrics BASELINE = Inr m \<and>
     Operating_hours m = 560 \<and>
     Tons_processed m = 67200 \<and>
     Net_saleable_tons m = 63201.6 \<and>
     Revenue m = 31600800 \<and>
     Variable_cost m = 8064000 \<and>
     Contribution m = 23536800 \<and>
     EBITDA m = 21536800"
  by (simp add: baseline_result)

subsection \<open>Sign classification\<close>

text \<open>
  C3, as stated: with tolerance \<open>1e-9\<close>, a delta of exactly \<open>+0.000000001\<close> is positive,
  a delta of 0 neutral and a delta of exactly \<open>-0.000000001\<close> negative. Both comparisons
  of \<open>delta_class\<close> are strict, so a delta equal to the tolerance is neutral.
\<close>

theorem delta_class_boundary_counterexample:
  "\<not> (delta_class 0.000000001 = ''pos'' \<and>
      delta_class 0 = ''neu'' \<and>
      delta_class (- 0.000000001) = ''neg'')"
  by (simp add: delta_class_def tol_def)

text \<open>
  C3, amended: a delta of exactly \<open>+0.000000001\<close>, of 0, or of exactly
  \<open>-0.000000001\<close> is neutral; a delta is positive exactly when it is greater than
  \<open>0.000000001\<close> and negative exactly when it is less than \<open>-0.000000001\<close>.
\<close>

theorem delta_class_boundaries:
  "delta_class 0.000000001 = ''neu'' \<and>
   delta_class 0 = ''neu'' \<and>
   delta_class (- 0.000000001) = ''neu'' \<and>
   (delta_class d = ''pos'' \<longleftrightarrow> 0.000000001 < d) \<and>
   (delta_class d = ''neg'' \<longleftrightarrow> d < - 0.000000001)"
  by (simp add: delta_class_def tol_def)

text \<open>
  C9: the glyph and the class agree for every delta: \<open>arrow\<close> gives the upward triangle
  exactly when \<open>delta_class\<close> gives \<open>pos\<close>, the downward triangle exactly when it
  gives \<open>neg\<close>, and the dot exactly when it gives \<open>neu\<close>.
\<close>

theorem arrow_agrees_with_delta_class:
  "(arrow d = glyph_up \<longleftrightarrow> delta_class d = ''pos'') \<and>
   (arrow d = glyph_down \<longleftrightarrow> delta_class d = ''neg'') \<and>
   (arrow d = glyph_dot \<longleftrightarrow> delta_class d = ''neu'')"
  by (simp add: arrow_def delta_class_def glyph_up_def glyph_down_def glyph_dot_def)

subsection \<open>Zero operating hours\<close>

text \<open>
  C4: when downtime equals the planned hours (the planned hours being a non-negative
  number, as every field of a parameter set is), the engine raises nothing and returns
  tons processed, revenue, contribution %, EBITDA %, variable cost per processed ton and
  contribution per processed ton all equal to 0: each division is skipped by its guard.
\<close>

theorem zero_operating_hours:
  fixes p :: ScenarioParameters
  assumes "0 \<le> planned_hours_per_month p"
    and "downtime_hours p = planned_hours_per_month p"
  shows "\<exists>m. compute_metrics p = Inr m \<and>
     Tons_processed m = 0 \<and>
     Revenue m = 0 \<and>
     Contribution_pct m = 0 \<and>
     EBITDA_pct m = 0 \<and>
     Var_cost_per_processed_ton m = 0 \<and>
     Contribution_per_processed_ton m = 0"
  using assms by (simp add: compute_metrics_def truediv_def bind_result_def Let_def)

theorem zero_operating_hours_witness:
  "(0::real) \<le> 600 \<and>
   downtime_hours (BASELINE\<lparr>downtime_hours := 600\<rparr>) =
     planned_hours_per_month (BASELINE\<lparr>downtime_hours := 600\<rparr>) \<and>
   (\<exists>m. compute_metrics (BASELINE\<lparr>downtime_hours := 600\<rparr>) = Inr m \<and>
     Tons_processed m = 0 \<and>
     Revenue m = 0 \<and>
     Contribution_pct m = 0 \<and>
     EBITDA_pct m = 0 \<and>
     Var_cost_per_processed_ton m = 0 \<and>
     Contribution_per_processed_ton m = 0)"
  using zero_operating_hours [of "BASELINE\<lparr>downtime_hours := 600\<rparr>"]
  by (simp add: BASELINE_def)

subsection \<open>Clamping\<close>

lemma compute_metrics_downtime_over:
  fixes p :: ScenarioParameters
  assumes "planned_hours_per_month p < downtime_hours p"
  shows "compute_metrics p =
    compute_metrics (p\<lparr>downtime_hours := planned_hours_per_month p\<rparr>)"
  using assms unfolding compute_metrics_def by simp

lemma compute_metrics_yield_40:
  fixes p :: ScenarioParameters
  shows "compute_metrics (p\<lparr>yield_pct := 40\<rparr>) = compute_metrics (p\<lparr>yield_pct := 50\<rparr>)"
  unfolding compute_metrics_def by (simp add: truediv_def bind_result_def clamp_def)

lemma compute_metrics_scrap_50:
  fixes p :: ScenarioParameters
  shows "compute_metrics (p\<lparr>scrap_pct := 50\<rparr>) = compute_metrics (p\<lparr>scrap_pct := 20\<rparr>)"
  unfolding compute_metrics_def by (simp add: truediv_def bind_result_def clamp_def)

text \<open>
  C5: an out-of-range input gives the result of its clamp boundary. For every parameter
  set, downtime above the planned hours gives the same result as downtime equal to the
  planned hours; a yield of 40 gives the same result as a yield of 50; a scrap of 50
  gives the same result as a scrap of 20.
\<close>

theorem clamp_boundary_equivalence:
  fixes p :: ScenarioParameters
  shows "(planned_hours_per_month p < downtime_hours p \<longrightarrow>
      compute_metrics p =
        compute_metrics (p\<lparr>downtime_hours := planned_hours_per_month p\<rparr>)) \<and>
    compute_metrics (p\<lparr>yield_pct := 40\<rparr>) = compute_metrics (p\<lparr>yield_pct := 50\<rparr>) \<and>
    compute_metrics (p\<lparr>scrap_pct := 50\<rparr>) = compute_metrics (p\<lparr>scrap_pct := 20\<rparr>)"
  using compute_metrics_downtime_over [of p] compute_metrics_yield_40 [of p]
    compute_metrics_scrap_50 [of p]
  by blast

theorem clamp_boundary_equivalence_witness:
  "planned_hours_per_month (BASELINE\<lparr>downtime_hours := 700\<rparr>) <
     downtime_hours (BASELINE\<lparr>downtime_hours := 700\<rparr>) \<and>
   compute_metrics (BASELINE\<lparr>downtime_hours := 700\<rparr>) =
     compute_metrics (BASELINE\<lparr>downtime_hours := 600\<rparr>) \<and>
   compute_metrics (BASELINE\<lparr>downtime_hours := 700, yield_pct := 40\<rparr>) =
     compute_metrics (BASELINE\<lparr>downtime_hours := 700, yield_pct := 50\<rparr>) \<and>
   compute_metrics (BASELINE\<lparr>downtime_hours := 700, scrap_pct := 50\<rparr>) =
     compute_metrics (BASELINE\<lparr>downtime_hours := 700, scrap_pct := 20\<rparr>)"
  using clamp_boundary_equivalence [of "BASELINE\<lparr>downtime_hours := 700\<rparr>"]
  by (simp add: BASELINE_def)

text \<open>
  C10: for non-negative run rate and planned hours, whatever the yield and scrap inputs,
  the result satisfies
  \<open>0 \<le> 0.4 * tons_processed \<le> net_saleable_tons \<le> tons_processed\<close>.
\<close>

theorem net_saleable_tons_bounds:
  fixes p :: ScenarioParameters
  assumes rate: "0 \<le> run_rate_tph p"
    and planned: "0 \<le> planned_hours_per_month p"
  shows "\<exists>m. compute_metrics p = Inr m \<and>
     0 \<le> 0.4 * Tons_processed m \<and>
     0.4 * Tons_processed m \<le> Net_saleable_tons m \<and>
     Net_saleable_tons m \<le> Tons_processed m"
proof -
  obtain m where m: "compute_metrics p = Inr m"
    using compute_metrics_returns by blast
  define t where "t = Tons_processed m"
  define y where "y = clamp (yield_pct p / 100) (50 / 100) 1"
  define u where "u = 1 - clamp (scrap_pct p / 100) 0 (20 / 100)"
  have "0 \<le> planned_hours_per_month p
            - max 0 (min (downtime_hours p) (planned_hours_per_month p))"
    using planned by auto
  with rate have t0: "0 \<le> t"
    unfolding t_def compute_metrics_tons [OF m] by (rule mult_nonneg_nonneg)
  have net: "Net_saleable_tons m = t * (y * u)"
    unfolding t_def y_def u_def compute_metrics_net [OF m] by (simp add: mult.assoc)
  have y_lo: "1 / 2 \<le> y" and y_hi: "y \<le> 1"
    by (auto simp: y_def clamp_def)
  have u_lo: "4 / 5 \<le> u" and u_hi: "u \<le> 1"
    by (auto simp: u_def clamp_def)
  have "1 / 2 * (4 / 5) \<le> y * u"
    using y_lo u_lo by (intro mult_mono) auto
  then have lo: "2 / 5 \<le> y * u" by simp
  have "y * u \<le> 1 * 1"
    using y_hi u_hi y_lo u_lo by (intro mult_mono) auto
  then have hi: "y * u \<le> 1" by simp
  have "t * (2 / 5) \<le> t * (y * u)"
    using lo t0 by (rule mult_left_mono)
  then have below: "0.4 * t \<le> t * (y * u)" by simp
  have "t * (y * u) \<le> t * 1"
    using hi t0 by (rule mult_left_mono)
  then have above: "t * (y * u) \<le> t" by simp
  from t0 have "0 \<le> 0.4 * t" by simp
  with m below above net show ?thesis
    unfolding t_def by auto
qed

theorem net_saleable_tons_bounds_witness:
  "0 \<le> run_rate_tph BASELINE \<and> 0 \<le> planned_hours_per_month BASELINE \<and>
   (\<exists>m. compute_metrics BASELINE = Inr m \<and>
     0 \<le> 0.4 * Tons_processed m \<and>
     0.4 * Tons_processed m \<le> Net_saleable_tons m \<and>
     Net_saleable_tons m \<le> Tons_processed m)"
  using net_saleable_tons_bounds [of BASELINE]
  by (simp add: BASELINE_def)

subsection \<open>Variable cost\<close>

text \<open>
  C6: for every parameter set, the variable cost of the result is the processed tons
  times the sum of the three per-ton costs; it follows the processed tons, not the net
  saleable tons (on \<open>BASELINE\<close> the two products differ).
\<close>

theorem variable_cost_on_processed_tons:
  fixes p :: ScenarioParameters
  shows "(\<exists>m. compute_metrics p = Inr m \<and>
       Variable_cost m = Tons_processed m *
         (energy_cost_per_ton p + labor_cost_per_ton p + other_variable_cost_per_ton p)) \<and>
     (\<exists>m. compute_metrics BASELINE = Inr m \<and>
       Variable_cost m \<noteq> Net_saleable_tons m *
         (energy_cost_per_ton BASELINE + labor_cost_per_ton BASELINE
            + other_variable_cost_per_ton BASELINE))"
proof
  show "\<exists>m. compute_metrics p = Inr m \<and>
       Variable_cost m = Tons_processed m *
         (energy_cost_per_ton p + labor_cost_per_ton p + other_variable_cost_per_ton p)"
    by (simp add: compute_metrics_def truediv_def bind_result_def Let_def)
  show "\<exists>m. compute_metrics BASELINE = Inr m \<and>
       Variable_cost m \<noteq> Net_saleable_tons m *
         (energy_cost_per_ton BASELINE + labor_cost_per_ton BASELINE
            + other_variable_cost_per_ton BASELINE)"
    by (simp add: baseline_result) (simp add: BASELINE_def)
qed

subsection \<open>The grouped table\<close>

text \<open>
  C1 asks that every group header be followed by exactly one row per metric of the group,
  in declared order, no metric row repeated. The code does otherwise, for every pair of
  metric sets and every number formatter: the second inner loop runs inside the loop over
  the groups, so after each header the metrics of the group come twice, first the rows
  of the first inner loop and then the same metrics again. The table has 4 headers and
  24 metric rows.
\<close>

theorem rows_metric_column:
  "map_sum id (map Metric) (rows fmt b c) = Inr
     [''<b>Production & Time</b>'',
      ''Operating hours'', ''Tons processed'', ''Net saleable tons'',
      ''Operating hours'', ''Tons processed'', ''Net saleable tons'',
      ''<b>Costs</b>'',
      ''Variable cost'', ''Fixed cost'',
      ''Variable cost'', ''Fixed cost'',
      ''<b>Financial Results</b>'',
      ''Revenue'', ''Contribution'', ''Contribution %'', ''EBITDA'', ''EBITDA %'',
      ''Revenue'', ''Contribution'', ''Contribution %'', ''EBITDA'', ''EBITDA %'',
      ''<b>Unit Economics</b>'',
      ''Var cost / processed ton'', ''Contribution / processed ton'',
      ''Var cost / processed ton'', ''Contribution / processed ton'']"
  by (simp add: table_defs)

text \<open>
  C8 asks that every baseline cell of a row for a metric with a formula carry the formula,
  and that the baseline cell of every other metric row carry none. The second half holds.
  The first does not: each metric with a formula has two rows, and the baseline cell of
  the second one is the formatted number alone. The whole baseline column, for every
  pair of metric sets and every number formatter:
\<close>

theorem rows_baseline_column:
  "map_sum id (map Baseline) (rows fmt b c) = Inr
     [[],
      fmt (Operating_hours b) '',.0f'',
      fmt (Tons_processed b) '',.0f'',
      fmt (Net_saleable_tons b) '',.0f'',
      fmt (Operating_hours b) '',.0f'',
      fmt (Tons_processed b) '',.0f'',
      fmt (Net_saleable_tons b) '',.0f'',
      [],
      money0 fmt (Variable_cost b) @ formula_note ''Variable cost''
        (''Processed Tons '' @ sign_times @ '' (Energy + Labor + Other)''),
      money0 fmt (Fixed_cost b),
      money0 fmt (Variable_cost b),
      money0 fmt (Fixed_cost b),
      [],
      money0 fmt (Revenue b) @ formula_note ''Revenue''
        (''Unit Price '' @ sign_times @ '' Net Saleable Tons''),
      money0 fmt (Contribution b) @ formula_note ''Contribution''
        (''Revenue '' @ sign_minus @ '' Variable Cost''),
      (fmt (Contribution_pct b) ''.2f'' @ ''%'') @ formula_note ''Contribution %''
        (''Contribution '' @ sign_div @ '' Revenue''),
      money0 fmt (EBITDA b) @ formula_note ''EBITDA''
        (''Contribution '' @ sign_minus @ '' Fixed Cost''),
      (fmt (EBITDA_pct b) ''.2f'' @ ''%'') @ formula_note ''EBITDA %''
        (''EBITDA '' @ sign_div @ '' Revenue''),
      money0 fmt (Revenue b),
      money0 fmt (Contribution b),
      fmt (Contribution_pct b) ''.2f'' @ ''%'',
      money0 fmt (EBITDA b),
      fmt (EBITDA_pct b) ''.2f'' @ ''%'',
      [],
      money2 fmt (Var_cost_per_processed_ton b) @ formula_note ''Var cost / processed ton''
        (''Variable Cost '' @ sign_div @ '' Processed Tons''),
      money2 fmt (Contribution_per_processed_ton b)
        @ formula_note ''Contribution / processed ton''
        (''Contribution '' @ sign_div @ '' Processed Tons''),
      money2 fmt (Var_cost_per_processed_ton b),
      money2 fmt (Contribution_per_processed_ton b)]"
  by (simp add: table_defs)

end
